theory Spec2Isabelle
  imports Main
begin

section \<open>Circuit descriptions\<close>

text \<open>
  Both scripts build their circuits through three methods of the circuit class of the
  simulation library: \<^verbatim>\<open>h\<close>, \<open>cx\<close> and \<^verbatim>\<open>measure\<close>. A circuit is the
  declared number of qubits and of classical bits together with the instructions appended
  so far, in the order of the calls.
\<close>

datatype instruction = Hadamard nat | CNOT nat nat | Measure nat nat

record circuit =
  qubits :: nat
  clbits :: nat
  data :: "instruction list"

datatype error =
    InvalidWidth
  | CircuitError
  | BackendUnavailable
  | VisualizationFailure string

definition and_then :: "error + 'a \<Rightarrow> ('a \<Rightarrow> error + 'b) \<Rightarrow> error + 'b" where
  "and_then r f = (case r of Inl e \<Rightarrow> Inl e | Inr x \<Rightarrow> f x)"

text \<open>
  Modelled from the spec: the circuit class is part of the external library, so its
  constructor \<open>QuantumCircuit\<close> and its methods \<open>h_op\<close>, \<open>cx_op\<close> and \<open>measure_op\<close>
  follow the data model of the specification (an ordered sequence of operations over qubit
  indices, measurement bindings from a qubit to a classical slot, every index within the
  declared width). An index outside the width, a negative width, or a controlled gate whose
  control is its own target, is the library's own error. Only the form of \<^verbatim>\<open>measure\<close>
  that the scripts use is covered: a list of qubits and a list of slots of the same length,
  bound pairwise.
\<close>

definition QuantumCircuit :: "int \<Rightarrow> int \<Rightarrow> error + circuit" where
  "QuantumCircuit nq nc =
     (if nq < 0 \<or> nc < 0 then Inl CircuitError
      else Inr \<lparr>qubits = nat nq, clbits = nat nc, data = []\<rparr>)"

definition h_op :: "nat \<Rightarrow> circuit \<Rightarrow> error + circuit" where
  "h_op q c =
     (if q < qubits c then Inr (c\<lparr>data := data c @ [Hadamard q]\<rparr>)
      else Inl CircuitError)"

definition cx_op :: "nat \<Rightarrow> nat \<Rightarrow> circuit \<Rightarrow> error + circuit" where
  "cx_op ctl tgt c =
     (if ctl < qubits c \<and> tgt < qubits c \<and> ctl \<noteq> tgt
      then Inr (c\<lparr>data := data c @ [CNOT ctl tgt]\<rparr>)
      else Inl CircuitError)"

definition measure_op :: "nat list \<Rightarrow> nat list \<Rightarrow> circuit \<Rightarrow> error + circuit" where
  "measure_op qs cs c =
     (if length qs = length cs \<and> list_all (\<lambda>q. q < qubits c) qs
         \<and> list_all (\<lambda>b. b < clbits c) cs
      then Inr (c\<lparr>data := data c @ map2 Measure qs cs\<rparr>)
      else Inl CircuitError)"

text \<open>The two views of a circuit the specification speaks of: its gates and its bindings.\<close>

fun is_gate :: "instruction \<Rightarrow> bool" where
  "is_gate (Measure q b) = False"
| "is_gate g = True"

definition gates :: "circuit \<Rightarrow> instruction list" where
  "gates c = filter is_gate (data c)"

fun binding_of :: "instruction \<Rightarrow> (nat \<times> nat) list" where
  "binding_of (Measure q b) = [(q, b)]"
| "binding_of g = []"

definition bindings :: "circuit \<Rightarrow> (nat \<times> nat) list" where
  "bindings c = concat (map binding_of (data c))"

subsection \<open>The circuit of the 2-qubit script\<close>

definition s2_num_qubits :: int where
  "s2_num_qubits = 2"

definition s2_qc :: "error + circuit" where
  "s2_qc =
     and_then (QuantumCircuit s2_num_qubits s2_num_qubits) (\<lambda>qc.
     and_then (h_op 0 qc) (\<lambda>qc.
     and_then (cx_op 0 1 qc) (\<lambda>qc.
     measure_op [0, 1] [0, 1] qc)))"

subsection \<open>The 3-qubit circuits of the two scripts\<close>

definition s2_qc_ghz :: "error + circuit" where
  "s2_qc_ghz =
     and_then (QuantumCircuit 3 3) (\<lambda>qc_ghz.
     and_then (h_op 0 qc_ghz) (\<lambda>qc_ghz.
     and_then (cx_op 0 1 qc_ghz) (\<lambda>qc_ghz.
     and_then (cx_op 0 2 qc_ghz) (\<lambda>qc_ghz.
     measure_op [0, 1, 2] [0, 1, 2] qc_ghz))))"

definition s3_num_ghz_qubits :: int where
  "s3_num_ghz_qubits = 3"

definition s3_qc_ghz :: "error + circuit" where
  "s3_qc_ghz =
     and_then (QuantumCircuit s3_num_ghz_qubits s3_num_ghz_qubits) (\<lambda>qc_ghz.
     and_then (h_op 0 qc_ghz) (\<lambda>qc_ghz.
     and_then (cx_op 0 1 qc_ghz) (\<lambda>qc_ghz.
     and_then (cx_op 0 2 qc_ghz) (\<lambda>qc_ghz.
     measure_op [0, 1, 2] [0, 1, 2] qc_ghz))))"

subsection \<open>The builder for any width\<close>

fun cx_chain :: "nat list \<Rightarrow> circuit \<Rightarrow> error + circuit" where
  "cx_chain [] c = Inr c"
| "cx_chain (i # targets) c = and_then (cx_op 0 i c) (cx_chain targets)"

text \<open>
  Modelled from the spec: \<^verbatim>\<open>build_ghz_circuit(n)\<close> is not a function of the source,
  which writes the case \<open>n = 3\<close> out statement by statement in both scripts. The
  specification gives the recipe for any width: refuse a width below one with
  \<open>InvalidWidth\<close>; otherwise a circuit of \<open>n\<close> qubits and \<open>n\<close> classical slots, a
  Hadamard on qubit 0, a Controlled-NOT from qubit 0 to every qubit \<open>i\<close> of \<open>1..n-1\<close>
  in turn, and a binding of every qubit \<open>i\<close> to slot \<open>i\<close>.
\<close>

definition build_ghz_circuit :: "int \<Rightarrow> error + circuit" where
  "build_ghz_circuit n =
     (if n < 1 then Inl InvalidWidth
      else
        and_then (QuantumCircuit n n) (\<lambda>c.
        and_then (h_op 0 c) (\<lambda>c.
        and_then (cx_chain [1..<nat n] c) (\<lambda>c.
        measure_op [0..<nat n] [0..<nat n] c))))"

section \<open>The scripts as programs\<close>

text \<open>
  Everything a script does to the outside is an event: the backend is looked up, a circuit
  is compiled for it and run, a line is printed, a rendering call is made. A script is a
  function from the events so far to its outcome and the events after it; an exception is
  the outcome \<open>Inl\<close>, which ends the script unless a handler takes it.
\<close>

datatype backend = Backend string nat

type_synonym counts = "(string \<times> nat) list"

datatype piece = Lit string | Num nat | Drawing circuit | Dict counts | Exn error

datatype event =
    GetBackend string
  | Transpile circuit backend
  | Run circuit backend nat
  | Print "piece list"
  | PlotHistogram counts string "string option"
  | TightLayout "string option"
  | ShowPlot "string option"

text \<open>
  The library and the display are not part of the repository. What they answer is a
  parameter of every script: whether the named backend resolves, the compiled form of a
  circuit, the bitstring each repetition yields, and whether a rendering call raises (and
  with which message). Each answer may depend on all the events so far.
\<close>

record world =
  backend_found :: "string \<Rightarrow> event list \<Rightarrow> bool"
  transpiled :: "circuit \<Rightarrow> backend \<Rightarrow> event list \<Rightarrow> circuit"
  shot :: "circuit \<Rightarrow> event list \<Rightarrow> nat \<Rightarrow> string"
  plot_raises :: "event list \<Rightarrow> string option"
  layout_raises :: "event list \<Rightarrow> string option"
  show_raises :: "event list \<Rightarrow> string option"

type_synonym 'a prog = "event list \<Rightarrow> (error + 'a) \<times> event list"

definition ret :: "'a \<Rightarrow> 'a prog" where
  "ret x = (\<lambda>t. (Inr x, t))"

definition lift :: "error + 'a \<Rightarrow> 'a prog" where
  "lift r = (\<lambda>t. (r, t))"

definition bind_prog :: "'a prog \<Rightarrow> ('a \<Rightarrow> 'b prog) \<Rightarrow> 'b prog" where
  "bind_prog m f = (\<lambda>t. case m t of (Inl e, t') \<Rightarrow> (Inl e, t') | (Inr x, t') \<Rightarrow> f x t')"

fun block :: "unit prog list \<Rightarrow> unit prog" where
  "block [] = ret ()"
| "block (p # ps) = bind_prog p (\<lambda>_. block ps)"

definition try_except :: "'a prog \<Rightarrow> (error \<Rightarrow> 'a prog) \<Rightarrow> 'a prog" where
  "try_except body handler =
     (\<lambda>t. case body t of (Inl e, t') \<Rightarrow> handler e t' | (Inr x, t') \<Rightarrow> (Inr x, t'))"

definition print :: "piece list \<Rightarrow> unit prog" where
  "print ps = (\<lambda>t. (Inr (), t @ [Print ps]))"

fun is_get_backend :: "event \<Rightarrow> bool" where
  "is_get_backend (GetBackend name) = True"
| "is_get_backend e = False"

definition get_backend :: "world \<Rightarrow> string \<Rightarrow> backend prog" where
  "get_backend w name =
     (\<lambda>t. if backend_found w name t
          then (Inr (Backend name (length (filter is_get_backend t))), t @ [GetBackend name])
          else (Inl BackendUnavailable, t @ [GetBackend name]))"

definition transpile :: "world \<Rightarrow> circuit \<Rightarrow> backend \<Rightarrow> circuit prog" where
  "transpile w c b = (\<lambda>t. (Inr (transpiled w c b t), t @ [Transpile c b]))"

subsection \<open>The sampler\<close>

fun record_outcome :: "string \<Rightarrow> counts \<Rightarrow> counts" where
  "record_outcome k [] = [(k, 1)]"
| "record_outcome k ((k', n) # rest) =
     (if k = k' then (k', n + 1) # rest else (k', n) # record_outcome k rest)"

definition tally :: "string list \<Rightarrow> counts" where
  "tally outcomes = foldl (\<lambda>tbl k. record_outcome k tbl) [] outcomes"

definition total_count :: "counts \<Rightarrow> nat" where
  "total_count tbl = sum_list (map snd tbl)"

text \<open>
  Modelled from the spec: the sampler is the external simulator. It executes the compiled
  circuit for \<open>shots\<close> repetitions and returns the frequency table, so the table is the
  tally of one bitstring per repetition; which bitstring each repetition yields is the
  world's answer. The three source calls \<^verbatim>\<open>simulator.run\<close>, \<^verbatim>\<open>job.result\<close> and
  \<^verbatim>\<open>result.get_counts\<close> are this one step.
\<close>

definition run_counts :: "world \<Rightarrow> circuit \<Rightarrow> backend \<Rightarrow> nat \<Rightarrow> counts prog" where
  "run_counts w tc b shots =
     (\<lambda>t. (Inr (tally (map (shot w tc t) [0..<shots])), t @ [Run tc b shots]))"

subsection \<open>Rendering calls\<close>

text \<open>
  The three calls of a guarded block: \<^verbatim>\<open>plot_histogram\<close>, \<^verbatim>\<open>plt.tight_layout\<close> and
  \<^verbatim>\<open>plt.show\<close>. Each is recorded with what it did, and what it raises is an ordinary
  exception, the kind the handlers of the scripts (\<^verbatim>\<open>except Exception\<close>) take.
\<close>

definition raise_or_return :: "string option \<Rightarrow> error + unit" where
  "raise_or_return r = (case r of None \<Rightarrow> Inr () | Some msg \<Rightarrow> Inl (VisualizationFailure msg))"

definition plot_histogram :: "world \<Rightarrow> counts \<Rightarrow> string \<Rightarrow> unit prog" where
  "plot_histogram w c title =
     (\<lambda>t. (raise_or_return (plot_raises w t), t @ [PlotHistogram c title (plot_raises w t)]))"

definition tight_layout :: "world \<Rightarrow> unit prog" where
  "tight_layout w =
     (\<lambda>t. (raise_or_return (layout_raises w t), t @ [TightLayout (layout_raises w t)]))"

definition show_plot :: "world \<Rightarrow> unit prog" where
  "show_plot w =
     (\<lambda>t. (raise_or_return (show_raises w t), t @ [ShowPlot (show_raises w t)]))"

subsection \<open>The 2-qubit script\<close>

definition s2_num_shots :: nat where
  "s2_num_shots = 1024"

definition s2_plot_body :: "world \<Rightarrow> counts \<Rightarrow> unit prog" where
  "s2_plot_body w counts =
     block [plot_histogram w counts ''Measurement Outcomes of Entangled Qubits'',
            tight_layout w,
            show_plot w,
            print [Lit ''\<newline>Successfully displayed histogram plot.'']]"

definition s2_plot_handler :: "error \<Rightarrow> unit prog" where
  "s2_plot_handler e =
     block [print [Lit ''\<newline>Could not display histogram plot. Error: '', Exn e],
            print [Lit ''This might happen in environments without a graphical backend.''],
            print [Lit ''You can still examine the 'counts' dictionary directly.'']]"

definition s2_ghz_plot_body :: "world \<Rightarrow> counts \<Rightarrow> unit prog" where
  "s2_ghz_plot_body w counts_ghz =
     block [plot_histogram w counts_ghz ''Measurement Outcomes of 3-Qubit GHZ State'',
            tight_layout w,
            show_plot w]"

definition s2_ghz_plot_handler :: "error \<Rightarrow> unit prog" where
  "s2_ghz_plot_handler e =
     print [Lit ''\<newline>Could not display GHZ histogram plot. Error: '', Exn e]"

definition s2_main :: "world \<Rightarrow> (counts \<times> counts) prog" where
  "s2_main w =
     bind_prog (lift s2_qc) (\<lambda>qc.
     bind_prog (get_backend w ''qasm_simulator'') (\<lambda>simulator.
     bind_prog (transpile w qc simulator) (\<lambda>transpiled_qc.
     bind_prog (run_counts w transpiled_qc simulator s2_num_shots) (\<lambda>counts.
     bind_prog (block
       [print [Lit ''--- Quantum Circuit Diagram ---''],
        print [Drawing qc],
        print [Lit ''\<newline>--- Measurement Outcomes (Simulated '', Num s2_num_shots,
               Lit '' shots) ---''],
        print [Dict counts],
        try_except (s2_plot_body w counts) s2_plot_handler,
        print [Lit ''\<newline>--- Creating a 3-Qubit GHZ State Circuit ---'']]) (\<lambda>_.
     bind_prog (lift s2_qc_ghz) (\<lambda>qc_ghz.
     bind_prog (transpile w qc_ghz simulator) (\<lambda>transpiled_qc_ghz.
     bind_prog (run_counts w transpiled_qc_ghz simulator s2_num_shots) (\<lambda>counts_ghz.
     bind_prog (block
       [print [Lit ''\<newline>--- 3-Qubit GHZ State Circuit Diagram ---''],
        print [Drawing qc_ghz],
        print [Lit ''\<newline>--- 3-Qubit GHZ State Measurement Outcomes (Simulated '',
               Num s2_num_shots, Lit '' shots) ---''],
        print [Dict counts_ghz],
        try_except (s2_ghz_plot_body w counts_ghz) s2_ghz_plot_handler]) (\<lambda>_.
     ret (counts, counts_ghz))))))))))"

subsection \<open>The 3-qubit script\<close>

definition s3_num_shots :: nat where
  "s3_num_shots = 1024"

definition s3_plot_body :: "world \<Rightarrow> counts \<Rightarrow> unit prog" where
  "s3_plot_body w counts_ghz =
     block [plot_histogram w counts_ghz ''Measurement Outcomes of 3-Qubit GHZ State'',
            tight_layout w,
            show_plot w,
            print [Lit ''\<newline>Successfully displayed GHZ state histogram plot.'']]"

definition s3_plot_handler :: "error \<Rightarrow> unit prog" where
  "s3_plot_handler e =
     block [print [Lit ''\<newline>Could not display GHZ histogram plot. Error: '', Exn e],
            print [Lit
              ''This might happen in environments without a graphical backend for matplotlib.''],
            print [Lit
              ''You can still examine the 'counts_ghz' dictionary directly in the console.'']]"

definition s3_main :: "world \<Rightarrow> counts prog" where
  "s3_main w =
     bind_prog (get_backend w ''qasm_simulator'') (\<lambda>simulator.
     bind_prog (lift s3_qc_ghz) (\<lambda>qc_ghz.
     bind_prog (transpile w qc_ghz simulator) (\<lambda>transpiled_qc_ghz.
     bind_prog (run_counts w transpiled_qc_ghz simulator s3_num_shots) (\<lambda>counts_ghz.
     bind_prog (block
       [print [Lit ''\<newline>--- 3-Qubit GHZ State Circuit Diagram ---''],
        print [Drawing qc_ghz],
        print [Lit ''\<newline>--- 3-Qubit GHZ State Measurement Outcomes (Simulated '',
               Num s3_num_shots, Lit '' shots) ---''],
        print [Dict counts_ghz],
        try_except (s3_plot_body w counts_ghz) s3_plot_handler]) (\<lambda>_.
     ret counts_ghz)))))"

section \<open>Reading a trace\<close>

text \<open>The exception a rendering call raised, if it raised one.\<close>

fun raised :: "event \<Rightarrow> string option" where
  "raised (PlotHistogram c title r) = r"
| "raised (TightLayout r) = r"
| "raised (ShowPlot r) = r"
| "raised e = None"

fun is_render :: "event \<Rightarrow> bool" where
  "is_render (PlotHistogram c title r) = True"
| "is_render (TightLayout r) = True"
| "is_render (ShowPlot r) = True"
| "is_render e = False"

fun is_print :: "event \<Rightarrow> bool" where
  "is_print (Print ps) = True"
| "is_print e = False"

text \<open>A printed warning: a line that ends with the text of the exception caught.\<close>

fun is_warning_for :: "string \<Rightarrow> event \<Rightarrow> bool" where
  "is_warning_for msg (Print [Lit s, Exn (VisualizationFailure msg')]) = (msg = msg')"
| "is_warning_for msg e = False"

text \<open>
  A trace is \<open>caught\<close> when every rendering call that raised is followed at once by the
  printed warning for its exception.
\<close>

fun caught :: "event list \<Rightarrow> bool" where
  "caught [] = True"
| "caught (e # rest) =
     (case raised e of
        None \<Rightarrow> caught rest
      | Some msg \<Rightarrow> (case rest of [] \<Rightarrow> False | e' # _ \<Rightarrow> is_warning_for msg e' \<and> caught rest))"

text \<open>
  The events of one guarded rendering block: they start with the call that plots the given
  table under the given title, they are rendering calls and printed lines only, and they
  are \<open>caught\<close>.
\<close>

fun starts_with_plot :: "counts \<Rightarrow> string \<Rightarrow> event list \<Rightarrow> bool" where
  "starts_with_plot c title (PlotHistogram c' title' r # rest) = (c' = c \<and> title' = title)"
| "starts_with_plot c title v = False"

definition render_part :: "counts \<Rightarrow> string \<Rightarrow> event list \<Rightarrow> bool" where
  "render_part c title v =
     (starts_with_plot c title v \<and> list_all (\<lambda>e. is_render e \<or> is_print e) v \<and> caught v)"

text \<open>The backend handle of every sampler run of a trace, in the order of the runs.\<close>

fun run_backend :: "event \<Rightarrow> backend list" where
  "run_backend (Run tc b shots) = [b]"
| "run_backend e = []"

definition backends_used :: "event list \<Rightarrow> backend list" where
  "backends_used tr = concat (map run_backend tr)"

definition acquisitions :: "event list \<Rightarrow> event list" where
  "acquisitions tr = filter is_get_backend tr"

text \<open>No handle serves more than one run.\<close>

definition handle_per_run :: "event list \<Rightarrow> bool" where
  "handle_per_run tr = distinct (backends_used tr)"

subsection \<open>The events a complete run leaves\<close>

definition bell_circuit :: circuit where
  "bell_circuit =
     \<lparr>qubits = 2, clbits = 2, data = [Hadamard 0, CNOT 0 1, Measure 0 0, Measure 1 1]\<rparr>"

definition ghz3_circuit :: circuit where
  "ghz3_circuit =
     \<lparr>qubits = 3, clbits = 3,
      data = [Hadamard 0, CNOT 0 1, CNOT 0 2, Measure 0 0, Measure 1 1, Measure 2 2]\<rparr>"

definition qasm :: backend where
  "qasm = Backend ''qasm_simulator'' 0"

text \<open>
  The 2-qubit script up to and including the printed Bell table (\<open>tq\<close> is the compiled
  circuit, \<open>c\<close> the table), its 3-qubit part from the announcement to the printed table,
  and the 3-qubit script up to its printed table. The events of the guarded rendering
  blocks come after each of them.
\<close>

definition s2_bell_events :: "circuit \<Rightarrow> counts \<Rightarrow> event list" where
  "s2_bell_events tq c =
     [GetBackend ''qasm_simulator'',
      Transpile bell_circuit qasm,
      Run tq qasm 1024,
      Print [Lit ''--- Quantum Circuit Diagram ---''],
      Print [Drawing bell_circuit],
      Print [Lit ''\<newline>--- Measurement Outcomes (Simulated '', Num 1024,
             Lit '' shots) ---''],
      Print [Dict c]]"

definition s2_ghz_events :: "circuit \<Rightarrow> counts \<Rightarrow> event list" where
  "s2_ghz_events tq cg =
     [Print [Lit ''\<newline>--- Creating a 3-Qubit GHZ State Circuit ---''],
      Transpile ghz3_circuit qasm,
      Run tq qasm 1024,
      Print [Lit ''\<newline>--- 3-Qubit GHZ State Circuit Diagram ---''],
      Print [Drawing ghz3_circuit],
      Print [Lit ''\<newline>--- 3-Qubit GHZ State Measurement Outcomes (Simulated '',
             Num 1024, Lit '' shots) ---''],
      Print [Dict cg]]"

definition s3_events :: "circuit \<Rightarrow> counts \<Rightarrow> event list" where
  "s3_events tq cg =
     [GetBackend ''qasm_simulator'',
      Transpile ghz3_circuit qasm,
      Run tq qasm 1024,
      Print [Lit ''\<newline>--- 3-Qubit GHZ State Circuit Diagram ---''],
      Print [Drawing ghz3_circuit],
      Print [Lit ''\<newline>--- 3-Qubit GHZ State Measurement Outcomes (Simulated '',
             Num 1024, Lit '' shots) ---''],
      Print [Dict cg]]"

subsection \<open>Two worlds to run the scripts in\<close>

text \<open>
  In the first every call succeeds and the repetitions alternate between the two outcomes
  of full agreement. In the second there is no display: every rendering call raises.
\<close>

definition agreeing :: "nat \<Rightarrow> nat \<Rightarrow> string" where
  "agreeing width i = replicate width (if even i then CHR ''0'' else CHR ''1'')"

definition display_world :: world where
  "display_world =
     \<lparr>backend_found = (\<lambda>name t. name = ''qasm_simulator''),
      transpiled = (\<lambda>c b t. c),
      shot = (\<lambda>c t i. agreeing (clbits c) i),
      plot_raises = (\<lambda>t. None),
      layout_raises = (\<lambda>t. None),
      show_raises = (\<lambda>t. None)\<rparr>"

definition headless_world :: world where
  "headless_world =
     \<lparr>backend_found = (\<lambda>name t. name = ''qasm_simulator''),
      transpiled = (\<lambda>c b t. c),
      shot = (\<lambda>c t i. agreeing (clbits c) i),
      plot_raises = (\<lambda>t. Some ''no display''),
      layout_raises = (\<lambda>t. Some ''no display''),
      show_raises = (\<lambda>t. Some ''no display'')\<rparr>"

section \<open>Properties of the circuits\<close>

lemma cx_chain_appends:
  "list_all (\<lambda>i. 0 < i \<and> i < qubits c) targets \<Longrightarrow>
   cx_chain targets c = Inr (c\<lparr>data := data c @ map (CNOT 0) targets\<rparr>)"
proof (induction targets arbitrary: c)
  case Nil
  show ?case by simp
next
  case (Cons i targets)
  from Cons.prems have step: "cx_op 0 i c = Inr (c\<lparr>data := data c @ [CNOT 0 i]\<rparr>)"
    by (simp add: cx_op_def)
  from Cons.prems
  have rest: "list_all (\<lambda>j. 0 < j \<and> j < qubits (c\<lparr>data := data c @ [CNOT 0 i]\<rparr>)) targets"
    by simp
  show ?case
    by (simp add: step and_then_def Cons.IH [OF rest])
qed

lemma map2_same: "map2 f xs xs = map (\<lambda>x. f x x) xs"
  by (induction xs) simp_all

lemma build_ghz_circuit_data:
  assumes "1 \<le> n"
  shows "build_ghz_circuit n =
           Inr \<lparr>qubits = nat n, clbits = nat n,
                data = Hadamard 0 # map (CNOT 0) [1..<nat n]
                         @ map (\<lambda>i. Measure i i) [0..<nat n]\<rparr>"
proof -
  let ?c1 = "\<lparr>qubits = nat n, clbits = nat n, data = [Hadamard 0]\<rparr>"
  have targets: "list_all (\<lambda>i. 0 < i \<and> i < qubits ?c1) [1..<nat n]"
    by (simp add: list_all_iff)
  have chain: "cx_chain [1..<nat n] ?c1
                 = Inr \<lparr>qubits = nat n, clbits = nat n,
                        data = Hadamard 0 # map (CNOT 0) [1..<nat n]\<rparr>"
    using cx_chain_appends [OF targets] by simp
  have inrange: "list_all (\<lambda>q. q < nat n) [0..<nat n]"
    by (simp add: list_all_iff)
  have start: "and_then (QuantumCircuit n n) (h_op 0) = Inr ?c1"
    using assms by (simp add: QuantumCircuit_def h_op_def and_then_def)
  have "build_ghz_circuit n
          = and_then (cx_chain [1..<nat n] ?c1) (measure_op [0..<nat n] [0..<nat n])"
    using assms start
    by (simp add: build_ghz_circuit_def QuantumCircuit_def h_op_def and_then_def)
  also have "\<dots> = Inr \<lparr>qubits = nat n, clbits = nat n,
                data = Hadamard 0 # map (CNOT 0) [1..<nat n]
                         @ map (\<lambda>i. Measure i i) [0..<nat n]\<rparr>"
    unfolding chain by (simp add: and_then_def measure_op_def inrange map2_same)
  finally show ?thesis .
qed

lemma gates_ghz_data:
  "filter is_gate (Hadamard 0 # map (CNOT 0) ts @ map (\<lambda>i. Measure i i) ms)
     = Hadamard 0 # map (CNOT 0) ts"
  by (simp add: filter_map comp_def)

lemma bindings_ghz_data:
  "concat (map binding_of (Hadamard 0 # map (CNOT 0) ts @ map (\<lambda>i. Measure i i) ms))
     = map (\<lambda>i. (i, i)) ms"
proof -
  have a: "concat (map binding_of (map (CNOT 0) ts)) = []"
    by (induction ts) simp_all
  have b: "concat (map binding_of (map (\<lambda>i. Measure i i) ms)) = map (\<lambda>i. (i, i)) ms"
    by (induction ms) simp_all
  show ?thesis using a b by simp
qed

text \<open>
  C1. The circuit built at the start of the 2-qubit script has 2 qubits and 2 classical
  slots, and its instructions are exactly a Hadamard on qubit 0, a Controlled-NOT with
  control 0 and target 1, and the bindings of qubit 0 to slot 0 and of qubit 1 to slot 1,
  in this order and with nothing else.
\<close>

theorem bell_circuit_exact:
  "s2_qc = Inr \<lparr>qubits = 2, clbits = 2,
                data = [Hadamard 0, CNOT 0 1, Measure 0 0, Measure 1 1]\<rparr>
   \<and> map_sum id gates s2_qc = Inr [Hadamard 0, CNOT 0 1]
   \<and> map_sum id bindings s2_qc = Inr [(0, 0), (1, 1)]"
  by (simp add: s2_qc_def s2_num_qubits_def QuantumCircuit_def h_op_def cx_op_def
      measure_op_def and_then_def gates_def bindings_def)

text \<open>
  C2. For every width \<open>n \<ge> 1\<close> the builder succeeds with a circuit of \<open>n\<close> qubits and
  \<open>n\<close> classical slots whose instructions are, in order, one Hadamard on qubit 0, the
  \<open>n - 1\<close> Controlled-NOT gates with control 0 and targets \<open>1, 2, \<dots>, n - 1\<close>, and
  the binding of every qubit \<open>i\<close> to slot \<open>i\<close>, the slots being pairwise distinct. The
  circuits that the two scripts write out for three qubits are the builder's result at
  \<open>n = 3\<close>.
\<close>

theorem ghz_builder_sequence:
  "(s2_qc_ghz = build_ghz_circuit 3 \<and> s3_qc_ghz = build_ghz_circuit 3)
   \<and> (1 \<le> n \<longrightarrow>
        (\<exists>c. build_ghz_circuit n = Inr c
           \<and> qubits c = nat n \<and> clbits c = nat n
           \<and> data c = Hadamard 0 # map (CNOT 0) [1..<nat n]
                         @ map (\<lambda>i. Measure i i) [0..<nat n]
           \<and> gates c = Hadamard 0 # map (CNOT 0) [1..<nat n]
           \<and> length (filter is_gate (data c)) = nat n
           \<and> bindings c = map (\<lambda>i. (i, i)) [0..<nat n]
           \<and> distinct (map snd (bindings c))))"
proof (intro conjI impI)
  have three: "build_ghz_circuit 3 =
      Inr \<lparr>qubits = 3, clbits = 3,
           data = [Hadamard 0, CNOT 0 1, CNOT 0 2, Measure 0 0, Measure 1 1, Measure 2 2]\<rparr>"
    using build_ghz_circuit_data [of 3] by (simp add: upt_rec)
  show "s2_qc_ghz = build_ghz_circuit 3"
    unfolding three
    by (simp add: s2_qc_ghz_def QuantumCircuit_def h_op_def cx_op_def
        measure_op_def and_then_def)
  show "s3_qc_ghz = build_ghz_circuit 3"
    unfolding three
    by (simp add: s3_qc_ghz_def s3_num_ghz_qubits_def QuantumCircuit_def h_op_def cx_op_def
        measure_op_def and_then_def)
next
  assume n: "1 \<le> n"
  let ?c = "\<lparr>qubits = nat n, clbits = nat n,
             data = Hadamard 0 # map (CNOT 0) [1..<nat n]
                      @ map (\<lambda>i. Measure i i) [0..<nat n]\<rparr>"
  have built: "build_ghz_circuit n = Inr ?c"
    by (rule build_ghz_circuit_data [OF n])
  have g: "gates ?c = Hadamard 0 # map (CNOT 0) [1..<nat n]"
    unfolding gates_def by (simp only: circuit.simps gates_ghz_data)
  have b: "bindings ?c = map (\<lambda>i. (i, i)) [0..<nat n]"
    unfolding bindings_def by (simp only: circuit.simps bindings_ghz_data)
  have len: "length (filter is_gate (data ?c)) = nat n"
    using g n unfolding gates_def by simp
  have d: "distinct (map snd (bindings ?c))"
    unfolding b by (simp add: comp_def)
  show "\<exists>c. build_ghz_circuit n = Inr c
           \<and> qubits c = nat n \<and> clbits c = nat n
           \<and> data c = Hadamard 0 # map (CNOT 0) [1..<nat n]
                         @ map (\<lambda>i. Measure i i) [0..<nat n]
           \<and> gates c = Hadamard 0 # map (CNOT 0) [1..<nat n]
           \<and> length (filter is_gate (data c)) = nat n
           \<and> bindings c = map (\<lambda>i. (i, i)) [0..<nat n]
           \<and> distinct (map snd (bindings c))"
    using built g b len d by (intro exI [of _ ?c]) simp
qed

theorem ghz_builder_sequence_witness:
  "(1::int) \<le> 4
   \<and> (\<exists>c. build_ghz_circuit 4 = Inr c
         \<and> data c = [Hadamard 0, CNOT 0 1, CNOT 0 2, CNOT 0 3,
                      Measure 0 0, Measure 1 1, Measure 2 2, Measure 3 3]
         \<and> bindings c = [(0, 0), (1, 1), (2, 2), (3, 3)])"
proof -
  have two: "Suc (Suc 0) = 2" and three: "Suc (Suc (Suc 0)) = 3"
    by simp_all
  from ghz_builder_sequence [of 4]
  obtain c where c: "build_ghz_circuit 4 = Inr c"
    "data c = Hadamard 0 # map (CNOT 0) [1..<nat 4] @ map (\<lambda>i. Measure i i) [0..<nat 4]"
    "bindings c = map (\<lambda>i. (i, i)) [0..<nat 4]"
    by auto
  have "data c = [Hadamard 0, CNOT 0 1, CNOT 0 2, CNOT 0 3,
                  Measure 0 0, Measure 1 1, Measure 2 2, Measure 3 3]"
    unfolding c(2) by (simp add: upt_rec two three)
  moreover have "bindings c = [(0, 0), (1, 1), (2, 2), (3, 3)]"
    unfolding c(3) by (simp add: upt_rec two three)
  ultimately show ?thesis
    using c(1) by simp
qed

text \<open>
  C6. For every width below one the builder fails with \<open>InvalidWidth\<close>, and this is the
  only way construction can fail: whenever the builder returns an error, the error is
  \<open>InvalidWidth\<close> and the width was below one, so no index error of the circuit class
  can come out of it.
\<close>

theorem ghz_builder_invalid_width:
  "(n < 1 \<longrightarrow> build_ghz_circuit n = Inl InvalidWidth)
   \<and> (build_ghz_circuit n = Inl e \<longrightarrow> e = InvalidWidth \<and> n < 1)"
proof (intro conjI impI)
  assume "n < 1"
  then show "build_ghz_circuit n = Inl InvalidWidth"
    by (simp add: build_ghz_circuit_def)
next
  assume failed: "build_ghz_circuit n = Inl e"
  have small: "n < 1"
  proof (rule ccontr)
    assume "\<not> n < 1"
    then have "1 \<le> n" by simp
    from build_ghz_circuit_data [OF this] failed show False by simp
  qed
  then have "build_ghz_circuit n = Inl InvalidWidth"
    by (simp add: build_ghz_circuit_def)
  with failed have "e = InvalidWidth" by simp
  with small show "e = InvalidWidth" and "n < 1" by simp_all
qed

theorem ghz_builder_invalid_width_witness:
  "(0::int) < 1 \<and> (- 2::int) < 1
   \<and> build_ghz_circuit 0 = Inl InvalidWidth
   \<and> build_ghz_circuit (- 2) = Inl InvalidWidth"
  using ghz_builder_invalid_width [of 0 InvalidWidth]
    ghz_builder_invalid_width [of "- 2" InvalidWidth]
  by simp

text \<open>
  C7. At width one the builder succeeds with the degenerate circuit: one qubit, one slot,
  a single Hadamard, no Controlled-NOT, and the single binding of qubit 0 to slot 0.
\<close>

theorem ghz_builder_width_one:
  "build_ghz_circuit 1 = Inr \<lparr>qubits = 1, clbits = 1, data = [Hadamard 0, Measure 0 0]\<rparr>
   \<and> map_sum id gates (build_ghz_circuit 1) = Inr [Hadamard 0]
   \<and> map_sum id bindings (build_ghz_circuit 1) = Inr [(0, 0)]"
proof -
  have one: "build_ghz_circuit 1
               = Inr \<lparr>qubits = 1, clbits = 1, data = [Hadamard 0, Measure 0 0]\<rparr>"
    using build_ghz_circuit_data [of 1] by simp
  show ?thesis
    unfolding one by (simp add: gates_def bindings_def)
qed

text \<open>
  C9. The 3-qubit circuit built at the end of the 2-qubit script and the one built by the
  3-qubit script are the same circuit description: 3 qubits and 3 classical slots, the
  gates Hadamard on qubit 0, Controlled-NOT 0 to 1, Controlled-NOT 0 to 2, and the
  bindings of qubit \<open>i\<close> to slot \<open>i\<close> for \<open>i = 0, 1, 2\<close>.
\<close>

theorem ghz_circuits_identical:
  "s2_qc_ghz = s3_qc_ghz
   \<and> s3_qc_ghz = Inr \<lparr>qubits = 3, clbits = 3,
         data = [Hadamard 0, CNOT 0 1, CNOT 0 2, Measure 0 0, Measure 1 1, Measure 2 2]\<rparr>
   \<and> map_sum id gates s3_qc_ghz = Inr [Hadamard 0, CNOT 0 1, CNOT 0 2]
   \<and> map_sum id bindings s3_qc_ghz = Inr [(0, 0), (1, 1), (2, 2)]"
  by (simp add: s2_qc_ghz_def s3_qc_ghz_def s3_num_ghz_qubits_def QuantumCircuit_def
      h_op_def cx_op_def measure_op_def and_then_def gates_def bindings_def)

section \<open>Properties of the programs\<close>

subsection \<open>The sampler's table\<close>

lemma total_record_outcome: "total_count (record_outcome k tbl) = Suc (total_count tbl)"
  by (induction tbl) (auto simp: total_count_def)

lemma total_foldl_record:
  "total_count (foldl (\<lambda>tbl k. record_outcome k tbl) tbl xs) = total_count tbl + length xs"
  by (induction xs arbitrary: tbl) (simp_all add: total_record_outcome)

lemma total_tally: "total_count (tally xs) = length xs"
  using total_foldl_record [of "[]" xs] by (simp add: tally_def total_count_def)

subsection \<open>The guarded rendering blocks\<close>

lemma caught_append: "caught a \<Longrightarrow> caught b \<Longrightarrow> caught (a @ b)"
proof (induction a)
  case Nil
  then show ?case by simp
next
  case (Cons e rest)
  then show ?case
    by (cases "raised e"; cases rest) auto
qed

lemma s2_guarded_plot:
  "\<exists>v. try_except (s2_plot_body w c) s2_plot_handler t = (Inr (), t @ v)
       \<and> render_part c ''Measurement Outcomes of Entangled Qubits'' v"
  by (auto simp: try_except_def s2_plot_body_def s2_plot_handler_def bind_prog_def ret_def
      print_def plot_histogram_def tight_layout_def show_plot_def raise_or_return_def
      render_part_def split: option.splits)

lemma s2_guarded_ghz_plot:
  "\<exists>v. try_except (s2_ghz_plot_body w c) s2_ghz_plot_handler t = (Inr (), t @ v)
       \<and> render_part c ''Measurement Outcomes of 3-Qubit GHZ State'' v"
  by (auto simp: try_except_def s2_ghz_plot_body_def s2_ghz_plot_handler_def bind_prog_def
      ret_def print_def plot_histogram_def tight_layout_def show_plot_def raise_or_return_def
      render_part_def split: option.splits)

lemma s3_guarded_plot:
  "\<exists>v. try_except (s3_plot_body w c) s3_plot_handler t = (Inr (), t @ v)
       \<and> render_part c ''Measurement Outcomes of 3-Qubit GHZ State'' v"
  by (auto simp: try_except_def s3_plot_body_def s3_plot_handler_def bind_prog_def ret_def
      print_def plot_histogram_def tight_layout_def show_plot_def raise_or_return_def
      render_part_def split: option.splits)

lemma render_part_no_backend:
  assumes "render_part c title v"
  shows "backends_used v = []" and "acquisitions v = []"
proof -
  from assms have all: "list_all (\<lambda>e. is_render e \<or> is_print e) v"
    by (simp add: render_part_def)
  have a: "run_backend e = []" if "is_render e \<or> is_print e" for e
    using that by (cases e) simp_all
  have b: "\<not> is_get_backend e" if "is_render e \<or> is_print e" for e
    using that by (cases e) simp_all
  from all show "backends_used v = []"
    by (induction v) (simp_all add: backends_used_def a)
  from all show "acquisitions v = []"
    by (induction v) (simp_all add: acquisitions_def b)
qed

lemma render_part_first:
  assumes "render_part c title v"
  shows "takeWhile (\<lambda>e. \<not> is_render e) (v @ rest) = []"
proof (cases v)
  case Nil
  with assms show ?thesis by (simp add: render_part_def)
next
  case (Cons e v')
  with assms have "is_render e"
    by (cases e) (simp_all add: render_part_def)
  with Cons show ?thesis by simp
qed

subsection \<open>The scripts from start to end\<close>

lemma s2_qc_value: "s2_qc = Inr bell_circuit"
  by (simp add: bell_circuit_def s2_qc_def s2_num_qubits_def QuantumCircuit_def h_op_def
      cx_op_def measure_op_def and_then_def)

lemma s2_qc_ghz_value: "s2_qc_ghz = Inr ghz3_circuit"
  by (simp add: ghz3_circuit_def s2_qc_ghz_def QuantumCircuit_def h_op_def cx_op_def
      measure_op_def and_then_def)

lemma s3_qc_ghz_value: "s3_qc_ghz = Inr ghz3_circuit"
  by (simp add: ghz3_circuit_def s3_qc_ghz_def s3_num_ghz_qubits_def QuantumCircuit_def
      h_op_def cx_op_def measure_op_def and_then_def)

lemma s2_main_shape:
  assumes found: "backend_found w ''qasm_simulator'' []"
  shows "\<exists>tq c v1 tq' cg v2.
     s2_main w [] = (Inr (c, cg), s2_bell_events tq c @ v1 @ s2_ghz_events tq' cg @ v2)
     \<and> total_count c = 1024 \<and> total_count cg = 1024
     \<and> render_part c ''Measurement Outcomes of Entangled Qubits'' v1
     \<and> render_part cg ''Measurement Outcomes of 3-Qubit GHZ State'' v2"
proof -
  let ?t1 = "[GetBackend ''qasm_simulator'', Transpile bell_circuit qasm]"
  let ?tq = "transpiled w bell_circuit qasm [GetBackend ''qasm_simulator'']"
  let ?c = "tally (map (shot w ?tq ?t1) [0..<1024])"
  let ?t2 = "s2_bell_events ?tq ?c"
  obtain v1 where v1: "try_except (s2_plot_body w ?c) s2_plot_handler ?t2 = (Inr (), ?t2 @ v1)"
     and r1: "render_part ?c ''Measurement Outcomes of Entangled Qubits'' v1"
    using s2_guarded_plot by blast
  let ?t3 = "?t2 @ v1 @ [Print [Lit ''\<newline>--- Creating a 3-Qubit GHZ State Circuit ---'']]"
  let ?tq' = "transpiled w ghz3_circuit qasm ?t3"
  let ?t4 = "?t3 @ [Transpile ghz3_circuit qasm]"
  let ?cg = "tally (map (shot w ?tq' ?t4) [0..<1024])"
  let ?t5 = "?t2 @ v1 @ s2_ghz_events ?tq' ?cg"
  obtain v2 where
    v2: "try_except (s2_ghz_plot_body w ?cg) s2_ghz_plot_handler ?t5 = (Inr (), ?t5 @ v2)"
     and r2: "render_part ?cg ''Measurement Outcomes of 3-Qubit GHZ State'' v2"
    using s2_guarded_ghz_plot by blast
  have t2: "?t2 = ?t1 @ [Run ?tq qasm 1024,
         Print [Lit ''--- Quantum Circuit Diagram ---''],
         Print [Drawing bell_circuit],
         Print [Lit ''\<newline>--- Measurement Outcomes (Simulated '', Num 1024,
                Lit '' shots) ---''],
         Print [Dict ?c]]"
    by (simp add: s2_bell_events_def)
  have t5: "?t5 = ?t4 @ [Run ?tq' qasm 1024,
         Print [Lit ''\<newline>--- 3-Qubit GHZ State Circuit Diagram ---''],
         Print [Drawing ghz3_circuit],
         Print [Lit ''\<newline>--- 3-Qubit GHZ State Measurement Outcomes (Simulated '',
               Num 1024, Lit '' shots) ---''],
         Print [Dict ?cg]]"
    by (simp add: s2_ghz_events_def)
  have run: "s2_main w [] = (Inr (?c, ?cg), ?t5 @ v2)"
    using found v1 [unfolded t2] v2 [unfolded t5] unfolding t5 unfolding t2
    by (simp add: s2_main_def s2_qc_value s2_qc_ghz_value lift_def bind_prog_def ret_def
        get_backend_def transpile_def run_counts_def print_def s2_num_shots_def qasm_def)
  have "total_count ?c = 1024" "total_count ?cg = 1024"
    by (simp_all add: total_tally)
  with run r1 r2 show ?thesis
    by (intro exI [of _ ?tq] exI [of _ ?c] exI [of _ v1] exI [of _ ?tq'] exI [of _ ?cg]
        exI [of _ v2]) simp
qed

lemma s3_main_shape:
  assumes found: "backend_found w ''qasm_simulator'' []"
  shows "\<exists>tq cg v.
     s3_main w [] = (Inr cg, s3_events tq cg @ v)
     \<and> total_count cg = 1024
     \<and> render_part cg ''Measurement Outcomes of 3-Qubit GHZ State'' v"
proof -
  let ?t1 = "[GetBackend ''qasm_simulator'', Transpile ghz3_circuit qasm]"
  let ?tq = "transpiled w ghz3_circuit qasm [GetBackend ''qasm_simulator'']"
  let ?cg = "tally (map (shot w ?tq ?t1) [0..<1024])"
  let ?t2 = "s3_events ?tq ?cg"
  obtain v where v: "try_except (s3_plot_body w ?cg) s3_plot_handler ?t2 = (Inr (), ?t2 @ v)"
     and r: "render_part ?cg ''Measurement Outcomes of 3-Qubit GHZ State'' v"
    using s3_guarded_plot by blast
  have t2: "?t2 = ?t1 @ [Run ?tq qasm 1024,
         Print [Lit ''\<newline>--- 3-Qubit GHZ State Circuit Diagram ---''],
         Print [Drawing ghz3_circuit],
         Print [Lit ''\<newline>--- 3-Qubit GHZ State Measurement Outcomes (Simulated '',
               Num 1024, Lit '' shots) ---''],
         Print [Dict ?cg]]"
    by (simp add: s3_events_def)
  have run: "s3_main w [] = (Inr ?cg, ?t2 @ v)"
    using found v [unfolded t2] unfolding t2
    by (simp add: s3_main_def s3_qc_ghz_value lift_def bind_prog_def ret_def
        get_backend_def transpile_def run_counts_def print_def s3_num_shots_def qasm_def)
  have "total_count ?cg = 1024"
    by (simp add: total_tally)
  with run r show ?thesis
    by (intro exI [of _ ?tq] exI [of _ ?cg] exI [of _ v]) simp
qed

lemma s2_main_unavailable:
  "\<not> backend_found w ''qasm_simulator'' [] \<Longrightarrow>
   s2_main w [] = (Inl BackendUnavailable, [GetBackend ''qasm_simulator''])"
  by (simp add: s2_main_def s2_qc_value lift_def bind_prog_def get_backend_def)

lemma s3_main_unavailable:
  "\<not> backend_found w ''qasm_simulator'' [] \<Longrightarrow>
   s3_main w [] = (Inl BackendUnavailable, [GetBackend ''qasm_simulator''])"
  by (simp add: s3_main_def bind_prog_def get_backend_def)

lemma backends_used_append: "backends_used (a @ b) = backends_used a @ backends_used b"
  by (simp add: backends_used_def)

lemma acquisitions_append: "acquisitions (a @ b) = acquisitions a @ acquisitions b"
  by (simp add: acquisitions_def)

lemma s2_backends:
  assumes found: "backend_found w ''qasm_simulator'' []"
  shows "backends_used (snd (s2_main w [])) = [qasm, qasm]
         \<and> acquisitions (snd (s2_main w [])) = [GetBackend ''qasm_simulator'']"
proof -
  from s2_main_shape [OF found] obtain tq c v1 tq' cg v2 where
    run: "s2_main w [] = (Inr (c, cg), s2_bell_events tq c @ v1 @ s2_ghz_events tq' cg @ v2)"
    and r1: "render_part c ''Measurement Outcomes of Entangled Qubits'' v1"
    and r2: "render_part cg ''Measurement Outcomes of 3-Qubit GHZ State'' v2"
    by blast
  note quiet = render_part_no_backend [OF r1] render_part_no_backend [OF r2]
  show ?thesis
    unfolding run snd_conv backends_used_append acquisitions_append quiet
    by (simp add: backends_used_def acquisitions_def s2_bell_events_def s2_ghz_events_def)
qed

lemma s3_backends:
  assumes found: "backend_found w ''qasm_simulator'' []"
  shows "backends_used (snd (s3_main w [])) = [qasm]
         \<and> acquisitions (snd (s3_main w [])) = [GetBackend ''qasm_simulator'']"
proof -
  from s3_main_shape [OF found] obtain tq cg v where
    run: "s3_main w [] = (Inr cg, s3_events tq cg @ v)"
    and r: "render_part cg ''Measurement Outcomes of 3-Qubit GHZ State'' v"
    by blast
  note quiet = render_part_no_backend [OF r]
  show ?thesis
    unfolding run snd_conv backends_used_append acquisitions_append quiet
    by (simp add: backends_used_def acquisitions_def s3_events_def)
qed

lemma display_found: "backend_found display_world ''qasm_simulator'' []"
  by (simp add: display_world_def)

lemma headless_found: "backend_found headless_world ''qasm_simulator'' []"
  by (simp add: headless_world_def)

text \<open>
  C4. The counts of every frequency table a sampler run returns add up to the number of
  shots it was asked for, and both scripts ask for 1024: the Bell table and the GHZ table
  of the 2-qubit script and the GHZ table of the 3-qubit script each add up to 1024.
\<close>

theorem counts_sum_to_shots:
  "s2_num_shots = 1024 \<and> s3_num_shots = 1024
   \<and> (fst (run_counts w tc b shots t) = Inr tbl \<longrightarrow> total_count tbl = shots)
   \<and> (fst (s2_main w []) = Inr (c, cg) \<longrightarrow> total_count c = s2_num_shots \<and> total_count cg = s2_num_shots)
   \<and> (fst (s3_main w []) = Inr cg' \<longrightarrow> total_count cg' = s3_num_shots)"
proof (intro conjI impI)
  show "s2_num_shots = 1024" by (simp add: s2_num_shots_def)
  show "s3_num_shots = 1024" by (simp add: s3_num_shots_def)
next
  assume "fst (run_counts w tc b shots t) = Inr tbl"
  then have "tbl = tally (map (shot w tc t) [0..<shots])"
    by (simp add: run_counts_def)
  then show "total_count tbl = shots"
    by (simp add: total_tally)
next
  assume ok: "fst (s2_main w []) = Inr (c, cg)"
  have found: "backend_found w ''qasm_simulator'' []"
  proof (rule ccontr)
    assume "\<not> backend_found w ''qasm_simulator'' []"
    from s2_main_unavailable [OF this] ok show False by simp
  qed
  from s2_main_shape [OF found] ok
  have "total_count c = 1024 \<and> total_count cg = 1024" by auto
  then show "total_count c = s2_num_shots" and "total_count cg = s2_num_shots"
    by (simp_all add: s2_num_shots_def)
next
  assume ok: "fst (s3_main w []) = Inr cg'"
  have found: "backend_found w ''qasm_simulator'' []"
  proof (rule ccontr)
    assume "\<not> backend_found w ''qasm_simulator'' []"
    from s3_main_unavailable [OF this] ok show False by simp
  qed
  from s3_main_shape [OF found] ok
  have "total_count cg' = 1024" by auto
  then show "total_count cg' = s3_num_shots"
    by (simp add: s3_num_shots_def)
qed

theorem counts_sum_to_shots_witness:
  "(\<exists>c cg. fst (s2_main display_world []) = Inr (c, cg) \<and> total_count c = 1024 \<and> total_count cg = 1024)
   \<and> (\<exists>cg. fst (s3_main display_world []) = Inr cg \<and> total_count cg = 1024)
   \<and> fst (run_counts display_world bell_circuit qasm 4 []) = Inr [(''00'', 2), (''11'', 2)]
   \<and> total_count [(''00'', 2), (''11'', 2)] = 4"
proof -
  from s2_main_shape [OF display_found]
  obtain c cg where s2: "fst (s2_main display_world []) = Inr (c, cg)"
    by auto
  from s3_main_shape [OF display_found]
  obtain cg' where s3: "fst (s3_main display_world []) = Inr cg'"
    by auto
  have four: "fst (run_counts display_world bell_circuit qasm 4 [])
                = Inr [(''00'', 2), (''11'', 2)]"
    by code_simp
  note inst = counts_sum_to_shots [of display_world bell_circuit qasm 4 "[]"
      "[(''00'', 2), (''11'', 2)]" c cg cg']
  from inst s2 have "total_count c = 1024 \<and> total_count cg = 1024" by simp
  moreover from inst s3 have "total_count cg' = 1024" by simp
  moreover from inst four have "total_count [(''00'', 2), (''11'', 2)] = 4" by blast
  ultimately show ?thesis
    using s2 s3 four by blast
qed

text \<open>
  C5. Whatever a rendering call raises inside one of the three guarded blocks, the block
  itself ends normally. So every run that got its backend ends with success, every
  rendering call that raised is followed at once by the printed warning carrying its
  exception, and the frequency tables are among the printed lines, whether rendering
  succeeded or failed.
\<close>

theorem rendering_failure_contained:
  "fst (try_except (s2_plot_body w c) s2_plot_handler t) = Inr ()
   \<and> fst (try_except (s2_ghz_plot_body w c) s2_ghz_plot_handler t) = Inr ()
   \<and> fst (try_except (s3_plot_body w c) s3_plot_handler t) = Inr ()
   \<and> (backend_found w ''qasm_simulator'' [] \<longrightarrow>
        (\<exists>c cg tr. s2_main w [] = (Inr (c, cg), tr) \<and> caught tr
            \<and> Print [Dict c] \<in> set tr \<and> Print [Dict cg] \<in> set tr)
        \<and> (\<exists>cg tr. s3_main w [] = (Inr cg, tr) \<and> caught tr \<and> Print [Dict cg] \<in> set tr))"
proof (intro conjI impI)
  show "fst (try_except (s2_plot_body w c) s2_plot_handler t) = Inr ()"
    using s2_guarded_plot [of w c t] by auto
  show "fst (try_except (s2_ghz_plot_body w c) s2_ghz_plot_handler t) = Inr ()"
    using s2_guarded_ghz_plot [of w c t] by auto
  show "fst (try_except (s3_plot_body w c) s3_plot_handler t) = Inr ()"
    using s3_guarded_plot [of w c t] by auto
next
  assume found: "backend_found w ''qasm_simulator'' []"
  from s2_main_shape [OF found] obtain tq c v1 tq' cg v2 where
    run: "s2_main w [] = (Inr (c, cg), s2_bell_events tq c @ v1 @ s2_ghz_events tq' cg @ v2)"
    and r1: "render_part c ''Measurement Outcomes of Entangled Qubits'' v1"
    and r2: "render_part cg ''Measurement Outcomes of 3-Qubit GHZ State'' v2"
    by blast
  have "caught (s2_bell_events tq c)" "caught (s2_ghz_events tq' cg)"
    by (simp_all add: s2_bell_events_def s2_ghz_events_def)
  moreover from r1 r2 have "caught v1" "caught v2"
    by (simp_all add: render_part_def)
  ultimately have "caught (s2_bell_events tq c @ v1 @ s2_ghz_events tq' cg @ v2)"
    by (intro caught_append)
  moreover have "Print [Dict c] \<in> set (s2_bell_events tq c)"
    "Print [Dict cg] \<in> set (s2_ghz_events tq' cg)"
    by (simp_all add: s2_bell_events_def s2_ghz_events_def)
  ultimately show "\<exists>c cg tr. s2_main w [] = (Inr (c, cg), tr) \<and> caught tr
            \<and> Print [Dict c] \<in> set tr \<and> Print [Dict cg] \<in> set tr"
    using run by auto
next
  assume found: "backend_found w ''qasm_simulator'' []"
  from s3_main_shape [OF found] obtain tq cg v where
    run: "s3_main w [] = (Inr cg, s3_events tq cg @ v)"
    and r: "render_part cg ''Measurement Outcomes of 3-Qubit GHZ State'' v"
    by blast
  have "caught (s3_events tq cg)"
    by (simp add: s3_events_def)
  moreover from r have "caught v"
    by (simp add: render_part_def)
  ultimately have "caught (s3_events tq cg @ v)"
    by (intro caught_append)
  moreover have "Print [Dict cg] \<in> set (s3_events tq cg)"
    by (simp add: s3_events_def)
  ultimately show "\<exists>cg tr. s3_main w [] = (Inr cg, tr) \<and> caught tr \<and> Print [Dict cg] \<in> set tr"
    using run by auto
qed

theorem rendering_failure_contained_witness:
  "backend_found headless_world ''qasm_simulator'' []
   \<and> try_except (s3_plot_body headless_world []) s3_plot_handler []
       = (Inr (),
          [PlotHistogram [] ''Measurement Outcomes of 3-Qubit GHZ State'' (Some ''no display''),
           Print [Lit ''\<newline>Could not display GHZ histogram plot. Error: '',
                  Exn (VisualizationFailure ''no display'')],
           Print [Lit
             ''This might happen in environments without a graphical backend for matplotlib.''],
           Print [Lit
             ''You can still examine the 'counts_ghz' dictionary directly in the console.'']])
   \<and> (\<exists>c cg tr. s2_main headless_world [] = (Inr (c, cg), tr) \<and> caught tr
          \<and> Print [Dict c] \<in> set tr \<and> Print [Dict cg] \<in> set tr)
   \<and> (\<exists>cg tr. s3_main headless_world [] = (Inr cg, tr) \<and> caught tr
          \<and> Print [Dict cg] \<in> set tr)"
proof -
  have block: "try_except (s3_plot_body headless_world []) s3_plot_handler []
       = (Inr (),
          [PlotHistogram [] ''Measurement Outcomes of 3-Qubit GHZ State'' (Some ''no display''),
           Print [Lit ''\<newline>Could not display GHZ histogram plot. Error: '',
                  Exn (VisualizationFailure ''no display'')],
           Print [Lit
             ''This might happen in environments without a graphical backend for matplotlib.''],
           Print [Lit
             ''You can still examine the 'counts_ghz' dictionary directly in the console.'']])"
    by (simp add: try_except_def s3_plot_body_def s3_plot_handler_def bind_prog_def ret_def
        print_def plot_histogram_def raise_or_return_def headless_world_def)
  from rendering_failure_contained [of headless_world "[]" "[]"] headless_found block
  show ?thesis by blast
qed

text \<open>
  C10. In the 2-qubit script the events before the first rendering call end with the
  printed Bell table. Whatever the Bell rendering block does, and so also when it fails,
  the script goes on to announce, compile, run and print the 3-qubit circuit and its
  table in full, and ends with success.
\<close>

theorem bell_table_before_rendering:
  assumes "backend_found w ''qasm_simulator'' []"
  shows "\<exists>tq c v1 tq' cg v2.
     s2_main w [] = (Inr (c, cg), s2_bell_events tq c @ v1 @ s2_ghz_events tq' cg @ v2)
     \<and> takeWhile (\<lambda>e. \<not> is_render e) (snd (s2_main w [])) = s2_bell_events tq c
     \<and> last (s2_bell_events tq c) = Print [Dict c]
     \<and> render_part c ''Measurement Outcomes of Entangled Qubits'' v1
     \<and> render_part cg ''Measurement Outcomes of 3-Qubit GHZ State'' v2
     \<and> s2_qc_ghz = Inr ghz3_circuit"
proof -
  from s2_main_shape [OF assms] obtain tq c v1 tq' cg v2 where
    run: "s2_main w [] = (Inr (c, cg), s2_bell_events tq c @ v1 @ s2_ghz_events tq' cg @ v2)"
    and r1: "render_part c ''Measurement Outcomes of Entangled Qubits'' v1"
    and r2: "render_part cg ''Measurement Outcomes of 3-Qubit GHZ State'' v2"
    by blast
  have quiet: "\<forall>e \<in> set (s2_bell_events tq c). \<not> is_render e"
    by (simp add: s2_bell_events_def)
  have "takeWhile (\<lambda>e. \<not> is_render e)
          (s2_bell_events tq c @ v1 @ s2_ghz_events tq' cg @ v2) = s2_bell_events tq c"
    using quiet render_part_first [OF r1, of "s2_ghz_events tq' cg @ v2"]
    by (simp add: takeWhile_append2)
  then have first: "takeWhile (\<lambda>e. \<not> is_render e) (snd (s2_main w [])) = s2_bell_events tq c"
    by (simp add: run)
  have "last (s2_bell_events tq c) = Print [Dict c]"
    by (simp add: s2_bell_events_def)
  with run first r1 r2 s2_qc_ghz_value show ?thesis
    by blast
qed

theorem bell_table_before_rendering_witness:
  "backend_found headless_world ''qasm_simulator'' []
   \<and> fst (s2_plot_body headless_world [] []) = Inl (VisualizationFailure ''no display'')
   \<and> (\<exists>tq c v1 tq' cg v2.
        s2_main headless_world []
          = (Inr (c, cg), s2_bell_events tq c @ v1 @ s2_ghz_events tq' cg @ v2)
        \<and> takeWhile (\<lambda>e. \<not> is_render e) (snd (s2_main headless_world []))
            = s2_bell_events tq c)"
proof -
  have fails: "fst (s2_plot_body headless_world [] []) = Inl (VisualizationFailure ''no display'')"
    by (simp add: s2_plot_body_def bind_prog_def plot_histogram_def raise_or_return_def
        headless_world_def)
  from bell_table_before_rendering [OF headless_found] headless_found fails
  show ?thesis by blast
qed

text \<open>
  C8, as the scripts have it. The 2-qubit script looks its backend up once, and that one
  handle serves both of its runs, the Bell run and the 3-qubit run; the 3-qubit script
  looks its backend up once and makes its single run with it.
\<close>

theorem backend_handle_shared:
  assumes "backend_found w ''qasm_simulator'' []"
  shows "acquisitions (snd (s2_main w [])) = [GetBackend ''qasm_simulator'']
     \<and> backends_used (snd (s2_main w [])) = [qasm, qasm]
     \<and> acquisitions (snd (s3_main w [])) = [GetBackend ''qasm_simulator'']
     \<and> backends_used (snd (s3_main w [])) = [qasm]"
  using s2_backends [OF assms] s3_backends [OF assms] by simp

theorem backend_handle_shared_witness:
  "backend_found headless_world ''qasm_simulator'' []
   \<and> acquisitions (snd (s2_main headless_world [])) = [GetBackend ''qasm_simulator'']
   \<and> backends_used (snd (s2_main headless_world []))
       = [Backend ''qasm_simulator'' 0, Backend ''qasm_simulator'' 0]
   \<and> backends_used (snd (s3_main headless_world [])) = [Backend ''qasm_simulator'' 0]"
  using backend_handle_shared [OF headless_found] headless_found
  by (simp add: qasm_def)

text \<open>
  C8, as stated, fails: in the world where every call succeeds, the two runs of the
  2-qubit script use the same handle.
\<close>

theorem handle_per_run_counterexample:
  "\<not> handle_per_run (snd (s2_main display_world []))"
  using s2_backends [OF display_found] by (simp add: handle_per_run_def)

end
